theory Spec2Isabelle
  imports Complex_Main
begin

section \<open>JavaScript values and numbers\<close>

text \<open>
  The program is \<^verbatim>\<open>sistema-figuras.js\<close>. A JavaScript number is an IEEE double; here it is
  one of the three special values or a finite real. Arithmetic on finite values is exact
  real arithmetic: rounding, overflow to an infinity and underflow to zero are not part of
  this model, and the negative zero is identified with zero. The special values follow
  ECMAScript: every comparison with \<open>NaN\<close> is false, and \<open>NaN\<close> propagates through the
  arithmetic.
\<close>

datatype jsnum = NaN | PInf | NInf | Fin real

text \<open>
  The values a caller can pass where the program expects a number. \<open>JObject\<close> stands for
  any object, array or function; \<open>typeof\<close> is the operator of the language.
\<close>

datatype jsval = JUndefined | JNull | JBool bool | JNum jsnum | JStr string | JObject

fun typeof :: "jsval \<Rightarrow> string" where
  "typeof JUndefined = ''undefined''"
| "typeof JNull = ''object''"
| "typeof (JBool b) = ''boolean''"
| "typeof (JNum n) = ''number''"
| "typeof (JStr s) = ''string''"
| "typeof JObject = ''object''"

text \<open>The number held by a value whose \<open>typeof\<close> is \<open>number\<close>.\<close>

fun el_numero :: "jsval \<Rightarrow> jsnum" where
  "el_numero (JNum n) = n"
| "el_numero v = NaN"

text \<open>The relational operators \<^verbatim>\<open><=\<close>, \<^verbatim>\<open><\<close> and \<^verbatim>\<open>>\<close> on numbers.\<close>

fun js_le :: "jsnum \<Rightarrow> jsnum \<Rightarrow> bool" where
  "js_le NaN y = False"
| "js_le x NaN = False"
| "js_le NInf y = True"
| "js_le x PInf = True"
| "js_le PInf y = False"
| "js_le (Fin a) NInf = False"
| "js_le (Fin a) (Fin b) = (a \<le> b)"

fun js_lt :: "jsnum \<Rightarrow> jsnum \<Rightarrow> bool" where
  "js_lt NaN y = False"
| "js_lt x NaN = False"
| "js_lt PInf y = False"
| "js_lt x NInf = False"
| "js_lt NInf y = True"
| "js_lt (Fin a) PInf = True"
| "js_lt (Fin a) (Fin b) = (a < b)"

definition js_gt :: "jsnum \<Rightarrow> jsnum \<Rightarrow> bool" where
  "js_gt x y = js_lt y x"

text \<open>
  The sign of a number that is not \<open>NaN\<close> (zero counts as positive zero), and the
  infinity of a given sign; an infinity of sign zero is \<open>NaN\<close>, as in \<open>Infinity * 0\<close>.
\<close>

fun signo :: "jsnum \<Rightarrow> real" where
  "signo NaN = 0"
| "signo PInf = 1"
| "signo NInf = - 1"
| "signo (Fin a) = sgn a"

definition infinito :: "real \<Rightarrow> jsnum" where
  "infinito s = (if s = 0 then NaN else if 0 < s then PInf else NInf)"

fun js_add :: "jsnum \<Rightarrow> jsnum \<Rightarrow> jsnum" where
  "js_add NaN y = NaN"
| "js_add x NaN = NaN"
| "js_add PInf NInf = NaN"
| "js_add NInf PInf = NaN"
| "js_add PInf y = PInf"
| "js_add NInf y = NInf"
| "js_add (Fin a) PInf = PInf"
| "js_add (Fin a) NInf = NInf"
| "js_add (Fin a) (Fin b) = Fin (a + b)"

fun js_mul :: "jsnum \<Rightarrow> jsnum \<Rightarrow> jsnum" where
  "js_mul NaN y = NaN"
| "js_mul x NaN = NaN"
| "js_mul (Fin a) (Fin b) = Fin (a * b)"
| "js_mul x y = infinito (signo x * signo y)"

fun js_div :: "jsnum \<Rightarrow> jsnum \<Rightarrow> jsnum" where
  "js_div NaN y = NaN"
| "js_div x NaN = NaN"
| "js_div (Fin a) (Fin b) = (if b = 0 then infinito (sgn a) else Fin (a / b))"
| "js_div (Fin a) y = Fin 0"
| "js_div x (Fin b) = infinito (signo x * (if b < 0 then - 1 else 1))"
| "js_div x y = NaN"

text \<open>
  The operator \<^verbatim>\<open>**\<close> (\<open>Number::exponentiate\<close>): the exponent is examined first, then
  the base. A negative base has a power only at an integer exponent.
\<close>

definition entero :: "real \<Rightarrow> bool" where
  "entero e = (of_int \<lfloor>e\<rfloor> = e)"

definition impar :: "real \<Rightarrow> bool" where
  "impar e = (entero e \<and> odd \<lfloor>e\<rfloor>)"

fun js_pow :: "jsnum \<Rightarrow> jsnum \<Rightarrow> jsnum" where
  "js_pow x NaN = NaN"
| "js_pow x (Fin e) =
     (if e = 0 then Fin 1
      else case x of
        NaN \<Rightarrow> NaN
      | PInf \<Rightarrow> (if 0 < e then PInf else Fin 0)
      | NInf \<Rightarrow> (if 0 < e then (if impar e then NInf else PInf) else Fin 0)
      | Fin b \<Rightarrow>
          (if b = 0 then (if 0 < e then Fin 0 else PInf)
           else if 0 < b then Fin (b powr e)
           else if entero e then Fin ((if impar e then - 1 else 1) * (\<bar>b\<bar> powr e))
           else NaN))"
| "js_pow x PInf =
     (case x of
        NaN \<Rightarrow> NaN
      | Fin b \<Rightarrow> (if 1 < \<bar>b\<bar> then PInf else if \<bar>b\<bar> = 1 then NaN else Fin 0)
      | _ \<Rightarrow> PInf)"
| "js_pow x NInf =
     (case x of
        NaN \<Rightarrow> NaN
      | Fin b \<Rightarrow> (if 1 < \<bar>b\<bar> then Fin 0 else if \<bar>b\<bar> = 1 then NaN else PInf)
      | _ \<Rightarrow> Fin 0)"

text \<open>
  \<^verbatim>\<open>Math.PI\<close>, \<^verbatim>\<open>Math.tan\<close> and \<^verbatim>\<open>Math.sqrt\<close>. The tangent has no value where the
  cosine is 0; the program takes it at \<open>\<pi> / 5\<close> only.
\<close>

definition Math_PI :: jsnum where
  "Math_PI = Fin pi"

fun Math_tan :: "jsnum \<Rightarrow> jsnum" where
  "Math_tan (Fin x) = (if cos x = 0 then NaN else Fin (tan x))"
| "Math_tan x = NaN"

fun Math_sqrt :: "jsnum \<Rightarrow> jsnum" where
  "Math_sqrt NaN = NaN"
| "Math_sqrt PInf = PInf"
| "Math_sqrt NInf = NaN"
| "Math_sqrt (Fin x) = (if x < 0 then NaN else Fin (sqrt x))"

section \<open>Errors\<close>

text \<open>
  Every failure of the program is \<^verbatim>\<open>throw new Error(message)\<close>; the constructors stand for
  the messages:
  \<^item> \<open>InvalidParameter nombre\<close>: the message of \<^verbatim>\<open>validarNumero\<close>, which says that the
    parameter \<open>nombre\<close> must be a number greater than 0;
  \<^item> \<open>NotImplemented m\<close>: the messages of the abstract methods \<open>m\<close>;
  \<^item> \<open>UnknownKind\<close>: \<^verbatim>\<open>'Tipo no reconocido'\<close>;
  \<^item> \<open>TypeError m\<close>: the language's own error on calling a method \<open>m\<close> that the object
    does not have.
\<close>

datatype error = InvalidParameter string | NotImplemented string | UnknownKind | TypeError string

section \<open>Validation\<close>

text \<open>
  \<^verbatim>\<open>if (typeof valor !== 'number' || valor <= 0) throw ...\<close>. The comparison is reached
  only by a number.
\<close>

definition validarNumero :: "jsval \<Rightarrow> string \<Rightarrow> error + unit" where
  "validarNumero valor nombre =
     (if typeof valor \<noteq> ''number'' \<or> js_le (el_numero valor) (Fin 0)
      then Inl (InvalidParameter nombre)
      else Inr ())"

section \<open>Solids\<close>

text \<open>
  An instance holds its fields: \<open>nombre\<close> and the dimension, which is a number once the
  constructor has validated it.
\<close>

datatype figura3D = Cubo string jsnum | Esfera string jsnum

fun nombre_3D :: "figura3D \<Rightarrow> string" where
  "nombre_3D (Cubo n lado) = n"
| "nombre_3D (Esfera n radio) = n"

definition new_Cubo :: "jsval \<Rightarrow> error + figura3D" where
  "new_Cubo lado =
     (case validarNumero lado ''lado'' of
        Inl e \<Rightarrow> Inl e
      | Inr _ \<Rightarrow> Inr (Cubo ''Cubo'' (el_numero lado)))"

definition new_Esfera :: "jsval \<Rightarrow> error + figura3D" where
  "new_Esfera radio =
     (case validarNumero radio ''radio'' of
        Inl e \<Rightarrow> Inl e
      | Inr _ \<Rightarrow> Inr (Esfera ''Esfera'' (el_numero radio)))"

fun calcularVolumen :: "figura3D \<Rightarrow> jsnum" where
  "calcularVolumen (Cubo n lado) = js_pow lado (Fin 3)"
| "calcularVolumen (Esfera n radio) =
     js_mul (js_mul (js_div (Fin 4) (Fin 3)) Math_PI) (js_pow radio (Fin 3))"

text \<open>
  A template literal that opens with a line break: the break, then every line with its
  own break. \<open>bs\<close> is the backslash.
\<close>

definition plantilla :: "string list \<Rightarrow> string" where
  "plantilla ls = CHR 0x0A # concat (map (\<lambda>l. l @ [CHR 0x0A]) ls)"

definition bs :: string where
  "bs = [CHR 0x5C]"

fun dibujarASCII_3D :: "figura3D \<Rightarrow> string" where
  "dibujarASCII_3D (Cubo n lado) = plantilla
     [''+------+'',
      ''|      |'',
      ''+------+'',
      ''|      |'',
      ''+------+'']"
| "dibujarASCII_3D (Esfera n radio) = plantilla
     [''   ***   '',
      '' *     * '',
      '' *     * '',
      ''   ***   '']"

section \<open>Shapes and the adapter\<close>

text \<open>
  One constructor per class. An instance of \<open>FiguraGeometrica\<close> or of a subclass holds
  \<open>nombre\<close>, the private \<open>#id\<close> and the dimensions; an adapter holds \<open>figura3D\<close> and
  \<open>nombre\<close>. A display name is a string of code units: \<open>0xED\<close> is the i with acute accent,
  \<open>0xE1\<close> the a with acute accent, \<open>0xC1\<close> the capital A with acute accent.
\<close>

datatype figura =
    FiguraGeometrica string string
  | Circulo string string jsnum
  | Rectangulo string string jsnum jsnum
  | Pentagono string string jsnum
  | Hexagono string string jsnum
  | Figura3DAdapter figura3D string

fun nombre :: "figura \<Rightarrow> string" where
  "nombre (FiguraGeometrica n i) = n"
| "nombre (Circulo n i radio) = n"
| "nombre (Rectangulo n i ancho alto) = n"
| "nombre (Pentagono n i lado) = n"
| "nombre (Hexagono n i lado) = n"
| "nombre (Figura3DAdapter f n) = n"

definition nombre_Circulo :: string where
  "nombre_Circulo = ''C'' @ [CHR 0xED] @ ''rculo''"

definition nombre_Rectangulo :: string where
  "nombre_Rectangulo = ''Rect'' @ [CHR 0xE1] @ ''ngulo''"

definition nombre_Pentagono :: string where
  "nombre_Pentagono = ''Pent'' @ [CHR 0xE1] @ ''gono''"

definition nombre_Hexagono :: string where
  "nombre_Hexagono = ''Hex'' @ [CHR 0xE1] @ ''gono''"

text \<open>
  The constructors. \<open>ident\<close> is the string that
  \<^verbatim>\<open>Math.random().toString(36).substr(2, 9)\<close> yields at this construction; validation
  comes before it is drawn.
\<close>

definition new_FiguraGeometrica :: "string \<Rightarrow> string \<Rightarrow> figura" where
  "new_FiguraGeometrica ident n = FiguraGeometrica n ident"

definition new_Figura3DAdapter :: "figura3D \<Rightarrow> figura" where
  "new_Figura3DAdapter f = Figura3DAdapter f (nombre_3D f)"

definition new_Circulo :: "string \<Rightarrow> jsval \<Rightarrow> error + figura" where
  "new_Circulo ident radio =
     (case validarNumero radio ''radio'' of
        Inl e \<Rightarrow> Inl e
      | Inr _ \<Rightarrow> Inr (Circulo nombre_Circulo ident (el_numero radio)))"

definition new_Rectangulo :: "string \<Rightarrow> jsval \<Rightarrow> jsval \<Rightarrow> error + figura" where
  "new_Rectangulo ident ancho alto =
     (case validarNumero ancho ''ancho'' of
        Inl e \<Rightarrow> Inl e
      | Inr _ \<Rightarrow>
          (case validarNumero alto ''alto'' of
             Inl e \<Rightarrow> Inl e
           | Inr _ \<Rightarrow>
               Inr (Rectangulo nombre_Rectangulo ident (el_numero ancho) (el_numero alto))))"

definition new_Pentagono :: "string \<Rightarrow> jsval \<Rightarrow> error + figura" where
  "new_Pentagono ident lado =
     (case validarNumero lado ''lado'' of
        Inl e \<Rightarrow> Inl e
      | Inr _ \<Rightarrow> Inr (Pentagono nombre_Pentagono ident (el_numero lado)))"

definition new_Hexagono :: "string \<Rightarrow> jsval \<Rightarrow> error + figura" where
  "new_Hexagono ident lado =
     (case validarNumero lado ''lado'' of
        Inl e \<Rightarrow> Inl e
      | Inr _ \<Rightarrow> Inr (Hexagono nombre_Hexagono ident (el_numero lado)))"

text \<open>The methods, each at the class that defines or overrides it.\<close>

fun calcularArea :: "figura \<Rightarrow> error + jsnum" where
  "calcularArea (FiguraGeometrica n i) = Inl (NotImplemented ''calcularArea'')"
| "calcularArea (Circulo n i radio) = Inr (js_mul Math_PI (js_pow radio (Fin 2)))"
| "calcularArea (Rectangulo n i ancho alto) = Inr (js_mul ancho alto)"
| "calcularArea (Pentagono n i lado) =
     Inr (js_div (js_mul (Fin 5) (js_pow lado (Fin 2)))
                 (js_mul (Fin 4) (Math_tan (js_div Math_PI (Fin 5)))))"
| "calcularArea (Hexagono n i lado) =
     Inr (js_mul (js_div (js_mul (Fin 3) (Math_sqrt (Fin 3))) (Fin 2)) (js_pow lado (Fin 2)))"
| "calcularArea (Figura3DAdapter f n) =
     Inr (js_pow (calcularVolumen f) (js_div (Fin 2) (Fin 3)))"

fun calcularPerimetro :: "figura \<Rightarrow> error + jsnum" where
  "calcularPerimetro (FiguraGeometrica n i) = Inl (NotImplemented ''calcularPerimetro'')"
| "calcularPerimetro (Circulo n i radio) = Inr (js_mul (js_mul (Fin 2) Math_PI) radio)"
| "calcularPerimetro (Rectangulo n i ancho alto) = Inr (js_mul (Fin 2) (js_add ancho alto))"
| "calcularPerimetro (Pentagono n i lado) = Inr (js_mul (Fin 5) lado)"
| "calcularPerimetro (Hexagono n i lado) = Inr (js_mul (Fin 6) lado)"
| "calcularPerimetro (Figura3DAdapter f n) = Inr (Fin 0)"

fun dibujarASCII :: "figura \<Rightarrow> string" where
  "dibujarASCII (FiguraGeometrica n i) = ''[No implementado para '' @ n @ '']''"
| "dibujarASCII (Circulo n i radio) = plantilla
     [''   ***   '',
      '' *     * '',
      '' *     * '',
      ''   ***   '']"
| "dibujarASCII (Rectangulo n i ancho alto) = plantilla
     [''+-----------+'',
      ''|           |'',
      ''|           |'',
      ''+-----------+'']"
| "dibujarASCII (Pentagono n i lado) = plantilla
     [''   /'' @ bs,
      ''  /  '' @ bs,
      '' /____'' @ bs,
      '' '' @ bs @ ''    /'',
      ''  '' @ bs @ ''__/'']"
| "dibujarASCII (Hexagono n i lado) = plantilla
     [''  ____  '',
      '' /    '' @ bs @ '' '',
      ''/      '' @ bs,
      bs @ ''      /'',
      '' '' @ bs @ ''____/'']"
| "dibujarASCII (Figura3DAdapter f n) = dibujarASCII_3D f"

text \<open>
  \<^verbatim>\<open>describir\<close>. \<^verbatim>\<open>Number.prototype.toFixed\<close> belongs to the host, not to the program:
  it is the parameter \<open>toFixed\<close>. The area is computed first, then the perimeter.
\<close>

fun describir :: "(jsnum \<Rightarrow> nat \<Rightarrow> string) \<Rightarrow> figura \<Rightarrow> error + string" where
  "describir toFixed (Figura3DAdapter f n) =
     Inr (n @ '' (3D) - Volumen: '' @ toFixed (calcularVolumen f) 2)"
| "describir toFixed fig =
     (case calcularArea fig of
        Inl e \<Rightarrow> Inl e
      | Inr a \<Rightarrow>
          (case calcularPerimetro fig of
             Inl e \<Rightarrow> Inl e
           | Inr p \<Rightarrow>
               Inr (nombre fig @ '' - '' @ [CHR 0xC1] @ ''rea: '' @ toFixed a 2
                    @ '', Per'' @ [CHR 0xED] @ ''metro: '' @ toFixed p 2)))"

text \<open>
  Reading the property \<open>id\<close>: the getter of \<open>FiguraGeometrica\<close> returns \<open>#id\<close>; the
  adapter has no such property, and the read gives \<open>undefined\<close>.
\<close>

fun id_figura :: "figura \<Rightarrow> jsval" where
  "id_figura (FiguraGeometrica n i) = JStr i"
| "id_figura (Circulo n i radio) = JStr i"
| "id_figura (Rectangulo n i ancho alto) = JStr i"
| "id_figura (Pentagono n i lado) = JStr i"
| "id_figura (Hexagono n i lado) = JStr i"
| "id_figura (Figura3DAdapter f n) = JUndefined"

section \<open>Similarity strategies\<close>

datatype estrategia = SimilitudStrategy | SimilitudTipo | SimilitudArea

fun sonSimilares :: "estrategia \<Rightarrow> figura \<Rightarrow> figura \<Rightarrow> error + bool" where
  "sonSimilares SimilitudStrategy fig1 fig2 = Inl (NotImplemented ''sonSimilares'')"
| "sonSimilares SimilitudTipo fig1 fig2 = Inr (nombre fig1 = nombre fig2)"
| "sonSimilares SimilitudArea fig1 fig2 =
     (case calcularArea fig1 of
        Inl e \<Rightarrow> Inl e
      | Inr a1 \<Rightarrow>
          (case calcularArea fig2 of
             Inl e \<Rightarrow> Inl e
           | Inr a2 \<Rightarrow>
               (let ratio = js_div a1 a2
                in Inr (js_gt ratio (Fin 0.8) \<and> js_lt ratio (Fin 1.2)))))"

text \<open>
  \<^verbatim>\<open>compararSimilitud(figura, estrategia = new SimilitudTipo())\<close> is a method of
  \<open>FiguraGeometrica\<close>; \<open>None\<close> is the omitted argument. The adapter does not have the
  method, and calling it there is the language's \<open>TypeError\<close>.
\<close>

fun compararSimilitud :: "figura \<Rightarrow> figura \<Rightarrow> estrategia option \<Rightarrow> error + bool" where
  "compararSimilitud (Figura3DAdapter f n) figura e = Inl (TypeError ''compararSimilitud'')"
| "compararSimilitud this figura None = sonSimilares SimilitudTipo this figura"
| "compararSimilitud this figura (Some e) = sonSimilares e this figura"

section \<open>The factory\<close>

text \<open>
  \<open>parametros\<close> is an object: a map from property names to values; reading a property
  that is not there gives \<open>undefined\<close>. \<open>tipo\<close> is any value, matched by \<^verbatim>\<open>===\<close> against
  the six labels in the order of the \<^verbatim>\<open>switch\<close>.
\<close>

definition propiedad :: "(string \<rightharpoonup> jsval) \<Rightarrow> string \<Rightarrow> jsval" where
  "propiedad obj k = (case obj k of None \<Rightarrow> JUndefined | Some v \<Rightarrow> v)"

definition crear :: "string \<Rightarrow> jsval \<Rightarrow> (string \<rightharpoonup> jsval) \<Rightarrow> error + figura" where
  "crear ident tipo parametros =
     (if tipo = JStr ''circulo'' then new_Circulo ident (propiedad parametros ''radio'')
      else if tipo = JStr ''rectangulo'' then
        new_Rectangulo ident (propiedad parametros ''ancho'') (propiedad parametros ''alto'')
      else if tipo = JStr ''pentagono'' then new_Pentagono ident (propiedad parametros ''lado'')
      else if tipo = JStr ''hexagono'' then new_Hexagono ident (propiedad parametros ''lado'')
      else if tipo = JStr ''cubo'' then
        (case new_Cubo (propiedad parametros ''lado'') of
           Inl e \<Rightarrow> Inl e
         | Inr c \<Rightarrow> Inr (new_Figura3DAdapter c))
      else if tipo = JStr ''esfera'' then
        (case new_Esfera (propiedad parametros ''radio'') of
           Inl e \<Rightarrow> Inl e
         | Inr c \<Rightarrow> Inr (new_Figura3DAdapter c))
      else Inl UnknownKind)"

section \<open>The collection\<close>

text \<open>
  The console is the list of the strings logged so far. \<^verbatim>\<open>forEach\<close> stops at the first
  exception, with the lines before it already logged: the result is the console and the
  exception, if any.
\<close>

record ColeccionFiguras =
  figuras :: "figura list"

definition new_ColeccionFiguras :: ColeccionFiguras where
  "new_ColeccionFiguras = \<lparr>figuras = []\<rparr>"

definition agregar :: "ColeccionFiguras \<Rightarrow> figura \<Rightarrow> ColeccionFiguras" where
  "agregar c figura = c\<lparr>figuras := figuras c @ [figura]\<rparr>"

fun forEach_log ::
  "(jsnum \<Rightarrow> nat \<Rightarrow> string) \<Rightarrow> figura list \<Rightarrow> string list \<Rightarrow> string list \<times> error option" where
  "forEach_log toFixed [] consola = (consola, None)"
| "forEach_log toFixed (f # fs) consola =
     (case describir toFixed f of
        Inl e \<Rightarrow> (consola, Some e)
      | Inr s \<Rightarrow> forEach_log toFixed fs (consola @ [s]))"

definition listar ::
  "(jsnum \<Rightarrow> nat \<Rightarrow> string) \<Rightarrow> ColeccionFiguras \<Rightarrow> string list \<Rightarrow> string list \<times> error option" where
  "listar toFixed c consola = forEach_log toFixed (figuras c) (consola @ [''=== FIGURAS ===''])"

section \<open>Predicates of the specification\<close>

text \<open>
  The specification's "strictly positive real", and its "not a number, or a number that
  is at most 0" read on the values of the language: a value of another type, a finite
  real that is at most 0, or the negative infinity.
\<close>

definition real_positivo :: "jsval \<Rightarrow> bool" where
  "real_positivo v = (case v of JNum (Fin x) \<Rightarrow> 0 < x | _ \<Rightarrow> False)"

definition no_numero_o_no_positivo :: "jsval \<Rightarrow> bool" where
  "no_numero_o_no_positivo v =
     (case v of JNum (Fin x) \<Rightarrow> x \<le> 0 | JNum NInf \<Rightarrow> True | JNum _ \<Rightarrow> False | _ \<Rightarrow> True)"

text \<open>
  The six labels of the \<^verbatim>\<open>switch\<close> in \<open>crear\<close> (the specification's circle, rectangle,
  pentagon, hexagon, cube and sphere), the properties that \<open>crear\<close> reads for each, and
  the specification's valid parameter bag: each property read is a strictly positive real.
\<close>

definition tipos_2D :: "string list" where
  "tipos_2D = [''circulo'', ''rectangulo'', ''pentagono'', ''hexagono'']"

definition tipos_3D :: "string list" where
  "tipos_3D = [''cubo'', ''esfera'']"

definition tipos_reconocidos :: "string list" where
  "tipos_reconocidos = tipos_2D @ tipos_3D"

definition campos :: "string \<Rightarrow> string list" where
  "campos t =
     (if t = ''circulo'' \<or> t = ''esfera'' then [''radio'']
      else if t = ''rectangulo'' then [''ancho'', ''alto'']
      else if t = ''pentagono'' \<or> t = ''hexagono'' \<or> t = ''cubo'' then [''lado'']
      else [])"

definition bolsa_valida :: "string \<Rightarrow> (string \<rightharpoonup> jsval) \<Rightarrow> bool" where
  "bolsa_valida t p =
     (t \<in> set tipos_reconocidos \<and> list_all (\<lambda>k. real_positivo (propiedad p k)) (campos t))"

text \<open>
  The invariant of the data model: every dimension held by the instance is a strictly
  positive real. \<open>es_FiguraGeometrica\<close> is \<^verbatim>\<open>instanceof FiguraGeometrica\<close>.
\<close>

fun invariante_3D :: "figura3D \<Rightarrow> bool" where
  "invariante_3D (Cubo n (Fin s)) = (0 < s)"
| "invariante_3D (Esfera n (Fin r)) = (0 < r)"
| "invariante_3D f = False"

fun invariante :: "figura \<Rightarrow> bool" where
  "invariante (Circulo n i (Fin r)) = (0 < r)"
| "invariante (Rectangulo n i (Fin w) (Fin h)) = (0 < w \<and> 0 < h)"
| "invariante (Pentagono n i (Fin s)) = (0 < s)"
| "invariante (Hexagono n i (Fin s)) = (0 < s)"
| "invariante (Figura3DAdapter f n) = invariante_3D f"
| "invariante f = False"

fun es_FiguraGeometrica :: "figura \<Rightarrow> bool" where
  "es_FiguraGeometrica (Figura3DAdapter f n) = False"
| "es_FiguraGeometrica f = True"

text \<open>The display name that the constructor behind each label assigns.\<close>

definition nombre_de_tipo :: "string \<Rightarrow> string" where
  "nombre_de_tipo t =
     (if t = ''circulo'' then nombre_Circulo
      else if t = ''rectangulo'' then nombre_Rectangulo
      else if t = ''pentagono'' then nombre_Pentagono
      else if t = ''hexagono'' then nombre_Hexagono
      else if t = ''cubo'' then ''Cubo''
      else ''Esfera'')"

section \<open>Validation and construction\<close>

lemma validarNumero_cases:
  "validarNumero v n = Inl (InvalidParameter n) \<or> validarNumero v n = Inr ()"
  by (simp add: validarNumero_def)

lemma validarNumero_rechaza:
  "no_numero_o_no_positivo v \<Longrightarrow> validarNumero v n = Inl (InvalidParameter n)"
  by (cases v; simp add: validarNumero_def no_numero_o_no_positivo_def split: jsnum.splits)

lemma validarNumero_acepta:
  "real_positivo v \<Longrightarrow> validarNumero v n = Inr ()"
  by (cases v; simp add: validarNumero_def real_positivo_def split: jsnum.splits)

lemma validarNumero_iff:
  "v \<noteq> JNum NaN \<Longrightarrow>
   (validarNumero v n = Inl (InvalidParameter n)) = no_numero_o_no_positivo v"
  by (cases v; simp add: validarNumero_def no_numero_o_no_positivo_def split: jsnum.splits)

text \<open>
  \<open>NaN\<close> has type number and is not at most 0: the guard lets it through, although it is
  no number greater than 0.
\<close>

lemma validarNumero_NaN:
  "validarNumero (JNum NaN) n = Inr ()"
  by (simp add: validarNumero_def)

text \<open>
  Claim C1, as stated, fails: the positive infinity is not a real number, yet
  \<open>validarNumero\<close> accepts it and a circle of infinite radius is constructed.
\<close>

theorem validarNumero_counterexample:
  "\<not> real_positivo (JNum PInf)
   \<and> validarNumero (JNum PInf) ''radio'' = Inr ()
   \<and> new_Circulo ''a1'' (JNum PInf) = Inr (Circulo nombre_Circulo ''a1'' PInf)"
  by (simp add: real_positivo_def validarNumero_def new_Circulo_def)

text \<open>
  Claim C1, amended. For every value \<open>v\<close> other than \<open>NaN\<close> and every field name \<open>n\<close>,
  \<open>validarNumero v n\<close> fails with \<open>InvalidParameter n\<close> if and only if \<open>v\<close> is not of
  type number or is at most 0 (so the positive infinity is accepted), and it fails in no
  other way. Every constructor of a shape or solid given such a value for a dimension fails
  with \<open>InvalidParameter\<close> of that dimension's name and yields no instance; given strictly
  positive reals it yields the instance that holds them.
\<close>

theorem validarNumero_constructores:
  "(v \<noteq> JNum NaN \<longrightarrow>
      (validarNumero v n = Inl (InvalidParameter n)) = no_numero_o_no_positivo v)
   \<and> (validarNumero v n = Inl (InvalidParameter n) \<or> validarNumero v n = Inr ())
   \<and> (no_numero_o_no_positivo v \<longrightarrow>
        new_Circulo i v = Inl (InvalidParameter ''radio'')
      \<and> new_Rectangulo i v w = Inl (InvalidParameter ''ancho'')
      \<and> (real_positivo w \<longrightarrow> new_Rectangulo i w v = Inl (InvalidParameter ''alto''))
      \<and> new_Pentagono i v = Inl (InvalidParameter ''lado'')
      \<and> new_Hexagono i v = Inl (InvalidParameter ''lado'')
      \<and> new_Cubo v = Inl (InvalidParameter ''lado'')
      \<and> new_Esfera v = Inl (InvalidParameter ''radio''))
   \<and> (real_positivo v \<longrightarrow>
        new_Circulo i v = Inr (Circulo nombre_Circulo i (el_numero v))
      \<and> (real_positivo w \<longrightarrow>
           new_Rectangulo i v w
             = Inr (Rectangulo nombre_Rectangulo i (el_numero v) (el_numero w)))
      \<and> new_Pentagono i v = Inr (Pentagono nombre_Pentagono i (el_numero v))
      \<and> new_Hexagono i v = Inr (Hexagono nombre_Hexagono i (el_numero v))
      \<and> new_Cubo v = Inr (Cubo ''Cubo'' (el_numero v))
      \<and> new_Esfera v = Inr (Esfera ''Esfera'' (el_numero v)))"
  by (simp add: validarNumero_iff validarNumero_cases validarNumero_rechaza validarNumero_acepta
      new_Circulo_def new_Rectangulo_def new_Pentagono_def new_Hexagono_def new_Cubo_def
      new_Esfera_def)

theorem validarNumero_constructores_witness:
  "validarNumero (JStr ''5'') ''radio'' = Inl (InvalidParameter ''radio'')
   \<and> new_Cubo (JNum (Fin 0)) = Inl (InvalidParameter ''lado'')
   \<and> new_Rectangulo ''a1'' (JNum (Fin 2)) (JNum (Fin 0)) = Inl (InvalidParameter ''alto'')
   \<and> new_Esfera (JNum (Fin 4)) = Inr (Esfera ''Esfera'' (Fin 4))"
  using validarNumero_constructores
      [where v = "JStr ''5''" and n = "''radio''" and i = "''a1''" and w = "JNum (Fin 2)"]
    validarNumero_constructores
      [where v = "JNum (Fin 0)" and n = "''lado''" and i = "''a1''" and w = "JNum (Fin 2)"]
    validarNumero_constructores
      [where v = "JNum (Fin 4)" and n = "''radio''" and i = "''a1''" and w = "JNum (Fin 2)"]
  by (simp add: no_numero_o_no_positivo_def real_positivo_def)

section \<open>Areas, perimeters and volumes\<close>

text \<open>On strictly positive reals the operators of the language are the real ones.\<close>

lemma js_pow_nat:
  "0 < b \<Longrightarrow> js_pow (Fin b) (Fin (numeral k)) = Fin (b ^ numeral k)"
  by (simp add: powr_numeral)

lemma js_pow_dos_tercios:
  "0 < b \<Longrightarrow> js_pow (Fin b) (js_div (Fin 2) (Fin 3)) = Fin (b powr (2 / 3))"
  by simp

lemma tan_pi_5_pos: "0 < tan (pi / 5)"
  by (rule tan_gt_zero) simp_all

lemma cos_pi_5_pos: "0 < cos (pi / 5)"
proof (rule cos_gt_zero_pi)
  have "0 < pi" by simp
  then show "- (pi / 2) < pi / 5" by linarith
  show "pi / 5 < pi / 2" by simp
qed

lemma Math_tan_pi_5: "Math_tan (js_div Math_PI (Fin 5)) = Fin (tan (pi / 5))"
  using cos_pi_5_pos by (simp add: Math_PI_def)

lemma area_Circulo:
  "0 < r \<Longrightarrow> calcularArea (Circulo n i (Fin r)) = Inr (Fin (pi * r\<^sup>2))"
  by (simp add: Math_PI_def powr_numeral)

lemma area_Pentagono:
  "0 < s \<Longrightarrow> calcularArea (Pentagono n i (Fin s)) = Inr (Fin (5 * s\<^sup>2 / (4 * tan (pi / 5))))"
  using tan_pi_5_pos by (simp add: Math_tan_pi_5 powr_numeral)

lemma area_Hexagono:
  "0 < s \<Longrightarrow> calcularArea (Hexagono n i (Fin s)) = Inr (Fin (3 * sqrt 3 / 2 * s\<^sup>2))"
  by (simp add: powr_numeral)


lemma volumen_Cubo: "0 < s \<Longrightarrow> calcularVolumen (Cubo n (Fin s)) = Fin (s ^ 3)"
  by (simp add: powr_numeral)

lemma volumen_Esfera: "0 < r \<Longrightarrow> calcularVolumen (Esfera n (Fin r)) = Fin (4 / 3 * pi * r ^ 3)"
  by (simp add: powr_numeral Math_PI_def)






lemma new_Circulo_real:
  "0 < r \<Longrightarrow> new_Circulo i (JNum (Fin r)) = Inr (Circulo nombre_Circulo i (Fin r))"
  by (simp add: new_Circulo_def validarNumero_def)

lemma new_Rectangulo_real:
  "0 < w \<Longrightarrow> 0 < h \<Longrightarrow>
   new_Rectangulo i (JNum (Fin w)) (JNum (Fin h)) = Inr (Rectangulo nombre_Rectangulo i (Fin w) (Fin h))"
  by (simp add: new_Rectangulo_def validarNumero_def)

lemma new_Pentagono_real:
  "0 < s \<Longrightarrow> new_Pentagono i (JNum (Fin s)) = Inr (Pentagono nombre_Pentagono i (Fin s))"
  by (simp add: new_Pentagono_def validarNumero_def)

lemma new_Hexagono_real:
  "0 < s \<Longrightarrow> new_Hexagono i (JNum (Fin s)) = Inr (Hexagono nombre_Hexagono i (Fin s))"
  by (simp add: new_Hexagono_def validarNumero_def)

lemma new_Cubo_real:
  "0 < s \<Longrightarrow> new_Cubo (JNum (Fin s)) = Inr (Cubo ''Cubo'' (Fin s))"
  by (simp add: new_Cubo_def validarNumero_def)

lemma new_Esfera_real:
  "0 < r \<Longrightarrow> new_Esfera (JNum (Fin r)) = Inr (Esfera ''Esfera'' (Fin r))"
  by (simp add: new_Esfera_def validarNumero_def)

lemma area_Pentagono_pos: "0 < s \<Longrightarrow> 0 < 5 * s\<^sup>2 / (4 * tan (pi / 5))"
  using tan_pi_5_pos by simp

lemma area_Hexagono_pos: "0 < s \<Longrightarrow> 0 < 3 * sqrt 3 / 2 * s\<^sup>2"
  by simp




section \<open>The adapter over a solid\<close>


lemma crear_cubo:
  "crear i (JStr ''cubo'') p =
     (case new_Cubo (propiedad p ''lado'') of Inl e \<Rightarrow> Inl e | Inr c \<Rightarrow> Inr (new_Figura3DAdapter c))"
  by (simp add: crear_def)

lemma crear_cubo_3:
  "crear i (JStr ''cubo'') [''lado'' \<mapsto> JNum (Fin 3)]
     = Inr (new_Figura3DAdapter (Cubo ''Cubo'' (Fin 3)))"
  by (simp add: crear_cubo propiedad_def new_Cubo_real)





section \<open>The factory\<close>

lemma crear_UnknownKind_iff:
  "(crear i tipo p = Inl UnknownKind) = (tipo \<notin> JStr ` set tipos_reconocidos)"
  by (auto simp: crear_def tipos_reconocidos_def tipos_2D_def tipos_3D_def
      new_Circulo_def new_Rectangulo_def new_Pentagono_def new_Hexagono_def new_Cubo_def
      new_Esfera_def validarNumero_def split: sum.splits)

text \<open>
  Claim C7. For every kind tag outside the six labels of the \<^verbatim>\<open>switch\<close>, whatever its
  type, \<open>crear\<close> fails with \<open>UnknownKind\<close>; so it does for the triangle, under its Spanish
  and its English label, with every parameter bag.
\<close>

theorem crear_tipo_no_reconocido:
  "(tipo \<notin> JStr ` set tipos_reconocidos \<longrightarrow> crear i tipo p = Inl UnknownKind)
   \<and> crear i (JStr ''triangulo'') p = Inl UnknownKind
   \<and> crear i (JStr ''triangle'') p = Inl UnknownKind"
  by (simp add: crear_UnknownKind_iff tipos_reconocidos_def tipos_2D_def tipos_3D_def image_iff)

theorem crear_tipo_no_reconocido_witness:
  "crear ''a1'' (JStr ''Circulo'') [''radio'' \<mapsto> JNum (Fin 5)] = Inl UnknownKind
   \<and> crear ''a1'' (JNum (Fin 1)) Map.empty = Inl UnknownKind"
  using crear_tipo_no_reconocido [where tipo = "JStr ''Circulo''" and i = "''a1''"
      and p = "[''radio'' \<mapsto> JNum (Fin 5)]"]
    crear_tipo_no_reconocido [where tipo = "JNum (Fin 1)" and i = "''a1''" and p = "Map.empty"]
  by (simp add: tipos_reconocidos_def tipos_2D_def tipos_3D_def image_iff)


section \<open>Similarity by type\<close>

lemma nombres_distintos:
  "nombre_Circulo \<noteq> nombre_Rectangulo" "nombre_Circulo \<noteq> nombre_Pentagono"
  "nombre_Circulo \<noteq> nombre_Hexagono" "nombre_Circulo \<noteq> ''Cubo''" "nombre_Circulo \<noteq> ''Esfera''"
  "nombre_Rectangulo \<noteq> nombre_Pentagono" "nombre_Rectangulo \<noteq> nombre_Hexagono"
  "nombre_Rectangulo \<noteq> ''Cubo''" "nombre_Rectangulo \<noteq> ''Esfera''"
  "nombre_Pentagono \<noteq> nombre_Hexagono" "nombre_Pentagono \<noteq> ''Cubo''"
  "nombre_Pentagono \<noteq> ''Esfera''" "nombre_Hexagono \<noteq> ''Cubo''" "nombre_Hexagono \<noteq> ''Esfera''"
  by (simp_all add: nombre_Circulo_def nombre_Rectangulo_def nombre_Pentagono_def
      nombre_Hexagono_def)

lemma crear_nombre:
  "crear i (JStr t) p = Inr A \<Longrightarrow> t \<in> set tipos_reconocidos \<and> nombre A = nombre_de_tipo t"
  by (auto simp: crear_def tipos_reconocidos_def tipos_2D_def tipos_3D_def nombre_de_tipo_def
      new_Circulo_def new_Rectangulo_def new_Pentagono_def new_Hexagono_def new_Cubo_def
      new_Esfera_def new_Figura3DAdapter_def split: sum.splits if_splits)

lemma nombre_de_tipo_inj:
  "t \<in> set tipos_reconocidos \<Longrightarrow> u \<in> set tipos_reconocidos \<Longrightarrow>
   (nombre_de_tipo t = nombre_de_tipo u) = (t = u)"
  using nombres_distintos nombres_distintos [symmetric]
  by (auto simp: tipos_reconocidos_def tipos_2D_def tipos_3D_def nombre_de_tipo_def)

lemma crear_mismo_tipo:
  "crear i (JStr t) p = Inr A \<Longrightarrow> crear j (JStr u) q = Inr B \<Longrightarrow>
   sonSimilares SimilitudTipo A B = Inr (t = u)"
  using crear_nombre [of i t p A] crear_nombre [of j u q B] nombre_de_tipo_inj [of t u]
  by simp

lemma compararSimilitud_defecto:
  "compararSimilitud A B None = compararSimilitud A B (Some SimilitudTipo)"
  by (cases A) simp_all

lemma compararSimilitud_FiguraGeometrica:
  "es_FiguraGeometrica A \<Longrightarrow> compararSimilitud A B None = Inr (nombre A = nombre B)"
  by (cases A) simp_all

text \<open>
  Claim C6. The type strategy answers true exactly when the two display names are the same
  string. \<open>compararSimilitud\<close> without a strategy behaves as with the type strategy, and on
  an instance of \<open>FiguraGeometrica\<close> it returns that answer. Two values made by the factory
  compare true exactly when their kind tags are the same, whatever their dimensions.
\<close>

theorem similitud_tipo:
  "sonSimilares SimilitudTipo A B = Inr (nombre A = nombre B)
   \<and> compararSimilitud A B None = compararSimilitud A B (Some SimilitudTipo)
   \<and> (es_FiguraGeometrica A \<longrightarrow> compararSimilitud A B None = Inr (nombre A = nombre B))
   \<and> (crear i (JStr t) p = Inr A \<and> crear j (JStr u) q = Inr B \<longrightarrow>
        sonSimilares SimilitudTipo A B = Inr (t = u))"
  using crear_mismo_tipo [of i t p A j u q B] compararSimilitud_defecto [of A B]
    compararSimilitud_FiguraGeometrica [of A B]
  by simp

theorem similitud_tipo_witness:
  "compararSimilitud (Circulo nombre_Circulo ''a1'' (Fin 5))
       (Pentagono nombre_Pentagono ''a2'' (Fin 4)) None = Inr False
   \<and> sonSimilares SimilitudTipo (Circulo nombre_Circulo ''a1'' (Fin 5))
       (Circulo nombre_Circulo ''a2'' (Fin 1)) = Inr True
   \<and> sonSimilares SimilitudTipo (Circulo nombre_Circulo ''a1'' (Fin 5))
       (Pentagono nombre_Pentagono ''a2'' (Fin 4)) = Inr False"
  using similitud_tipo [where A = "Circulo nombre_Circulo ''a1'' (Fin 5)"
      and B = "Pentagono nombre_Pentagono ''a2'' (Fin 4)"
      and i = "''a1''" and t = "''circulo''" and p = "[''radio'' \<mapsto> JNum (Fin 5)]"
      and j = "''a2''" and u = "''pentagono''" and q = "[''lado'' \<mapsto> JNum (Fin 4)]"]
    similitud_tipo [where A = "Circulo nombre_Circulo ''a1'' (Fin 5)"
      and B = "Circulo nombre_Circulo ''a2'' (Fin 1)"
      and i = "''a1''" and t = "''circulo''" and p = "[''radio'' \<mapsto> JNum (Fin 5)]"
      and j = "''a2''" and u = "''circulo''" and q = "[''radio'' \<mapsto> JNum (Fin 1)]"]
  by (simp add: crear_def propiedad_def new_Circulo_real new_Pentagono_real)


section \<open>What the factory's values provide\<close>

lemma real_positivo_elim:
  "real_positivo v \<Longrightarrow> \<exists>x. v = JNum (Fin x) \<and> 0 < x"
  by (cases v; simp add: real_positivo_def split: jsnum.splits)

lemma crear_valida:
  assumes "bolsa_valida t p"
  shows "\<exists>f. crear i (JStr t) p = Inr f \<and> invariante f
           \<and> (t \<in> set tipos_2D \<longrightarrow> es_FiguraGeometrica f \<and> id_figura f = JStr i)"
proof -
  from assms have t: "t \<in> set tipos_reconocidos"
    and c: "list_all (\<lambda>k. real_positivo (propiedad p k)) (campos t)"
    by (simp_all add: bolsa_valida_def)
  from t have "t = ''circulo'' \<or> t = ''rectangulo'' \<or> t = ''pentagono''
      \<or> t = ''hexagono'' \<or> t = ''cubo'' \<or> t = ''esfera''"
    by (simp add: tipos_reconocidos_def tipos_2D_def tipos_3D_def)
  then show ?thesis
  proof (elim disjE)
    assume 1: "t = ''circulo''"
    with c obtain r where "propiedad p ''radio'' = JNum (Fin r)" "0 < r"
      using real_positivo_elim by (auto simp: campos_def)
    with 1 show ?thesis by (simp add: crear_def new_Circulo_real)
  next
    assume 2: "t = ''rectangulo''"
    with c have "real_positivo (propiedad p ''ancho'')" "real_positivo (propiedad p ''alto'')"
      by (simp_all add: campos_def)
    then obtain w h where "propiedad p ''ancho'' = JNum (Fin w)" "0 < w"
      "propiedad p ''alto'' = JNum (Fin h)" "0 < h"
      using real_positivo_elim by metis
    with 2 show ?thesis by (simp add: crear_def new_Rectangulo_real)
  next
    assume 3: "t = ''pentagono''"
    with c obtain r where "propiedad p ''lado'' = JNum (Fin r)" "0 < r"
      using real_positivo_elim by (auto simp: campos_def)
    with 3 show ?thesis by (simp add: crear_def new_Pentagono_real)
  next
    assume 4: "t = ''hexagono''"
    with c obtain r where "propiedad p ''lado'' = JNum (Fin r)" "0 < r"
      using real_positivo_elim by (auto simp: campos_def)
    with 4 show ?thesis by (simp add: crear_def new_Hexagono_real)
  next
    assume 5: "t = ''cubo''"
    with c obtain r where "propiedad p ''lado'' = JNum (Fin r)" "0 < r"
      using real_positivo_elim by (auto simp: campos_def)
    with 5 show ?thesis
      by (simp add: crear_def new_Cubo_real new_Figura3DAdapter_def tipos_2D_def)
  next
    assume 6: "t = ''esfera''"
    with c obtain r where "propiedad p ''radio'' = JNum (Fin r)" "0 < r"
      using real_positivo_elim by (auto simp: campos_def)
    with 6 show ?thesis
      by (simp add: crear_def new_Esfera_real new_Figura3DAdapter_def tipos_2D_def)
  qed
qed

lemma invariante_3D_volumen:
  assumes "invariante_3D f"
  shows "\<exists>v. calcularVolumen f = Fin v \<and> 0 < v"
  using assms
proof (induction f rule: invariante_3D.induct)
  case (1 n s)
  then have "calcularVolumen (Cubo n (Fin s)) = Fin (s ^ 3) \<and> 0 < s ^ 3"
    by (simp add: volumen_Cubo del: calcularVolumen.simps)
  then show ?case by blast
next
  case (2 n r)
  then have "calcularVolumen (Esfera n (Fin r)) = Fin (4 / 3 * pi * r ^ 3)
      \<and> 0 < 4 / 3 * pi * r ^ 3"
    by (simp add: volumen_Esfera del: calcularVolumen.simps)
  then show ?case by blast
qed simp_all

lemma invariante_area:
  assumes "invariante f"
  shows "\<exists>a. calcularArea f = Inr (Fin a) \<and> 0 < a"
  using assms
proof (induction f rule: invariante.induct)
  case (1 n i r)
  then have "calcularArea (Circulo n i (Fin r)) = Inr (Fin (pi * r\<^sup>2)) \<and> 0 < pi * r\<^sup>2"
    using area_Circulo [of r n i] by simp
  then show ?case by blast
next
  case (2 n i w h)
  then show ?case by simp
next
  case (3 n i s)
  then have "calcularArea (Pentagono n i (Fin s)) = Inr (Fin (5 * s\<^sup>2 / (4 * tan (pi / 5))))
      \<and> 0 < 5 * s\<^sup>2 / (4 * tan (pi / 5))"
    using area_Pentagono [of s n i] area_Pentagono_pos [of s] by simp
  then show ?case by blast
next
  case (4 n i s)
  then have "calcularArea (Hexagono n i (Fin s)) = Inr (Fin (3 * sqrt 3 / 2 * s\<^sup>2))
      \<and> 0 < 3 * sqrt 3 / 2 * s\<^sup>2"
    using area_Hexagono [of s n i] area_Hexagono_pos [of s] by simp
  then show ?case by blast
next
  case (5 f n)
  then obtain v where "calcularVolumen f = Fin v" "0 < v"
    using invariante_3D_volumen by auto
  then show ?case by simp
qed simp_all

lemma invariante_perimetro:
  "invariante f \<Longrightarrow> \<exists>q. calcularPerimetro f = Inr (Fin q) \<and> 0 \<le> q"
  by (induction f rule: invariante.induct) (simp_all add: Math_PI_def)

lemma invariante_describir:
  assumes "invariante f"
  shows "\<exists>d. describir toFixed f = Inr d"
proof (cases f)
  case (Figura3DAdapter g n)
  then show ?thesis by simp
qed (use assms invariante_area [OF assms] invariante_perimetro [OF assms] in auto)

lemma dibujarASCII_3D_plantilla: "\<exists>ls. dibujarASCII_3D f = plantilla ls"
  by (cases f) auto

lemma dibujarASCII_plantilla:
  "invariante f \<Longrightarrow> \<exists>ls. dibujarASCII f = plantilla ls"
  by (induction f rule: invariante.induct) (auto simp: dibujarASCII_3D_plantilla)


lemma bolsa_cubo_3: "bolsa_valida ''cubo'' [''lado'' \<mapsto> JNum (Fin 3)]"
  by (simp add: bolsa_valida_def tipos_reconocidos_def tipos_2D_def tipos_3D_def campos_def
      propiedad_def real_positivo_def)

lemma bolsa_circulo_5: "bolsa_valida ''circulo'' [''radio'' \<mapsto> JNum (Fin 5)]"
  by (simp add: bolsa_valida_def tipos_reconocidos_def tipos_2D_def tipos_3D_def campos_def
      propiedad_def real_positivo_def)

text \<open>
  Claim C2, as stated, fails: the factory's cube of side 3 is an adapter; reading \<open>id\<close> on
  it gives \<open>undefined\<close>, and calling \<open>compararSimilitud\<close> on it is a \<open>TypeError\<close>.
\<close>

theorem crear_contrato_counterexample:
  "bolsa_valida ''cubo'' [''lado'' \<mapsto> JNum (Fin 3)]
   \<and> crear ''a1'' (JStr ''cubo'') [''lado'' \<mapsto> JNum (Fin 3)]
       = Inr (Figura3DAdapter (Cubo ''Cubo'' (Fin 3)) ''Cubo'')
   \<and> id_figura (Figura3DAdapter (Cubo ''Cubo'' (Fin 3)) ''Cubo'') = JUndefined
   \<and> compararSimilitud (Figura3DAdapter (Cubo ''Cubo'' (Fin 3)) ''Cubo'')
        (Figura3DAdapter (Cubo ''Cubo'' (Fin 3)) ''Cubo'') None
       = Inl (TypeError ''compararSimilitud'')"
  using crear_cubo_3 [of "''a1''"] by (simp add: bolsa_cubo_3 new_Figura3DAdapter_def)

text \<open>
  Claim C2, amended. For every recognised kind tag and every valid parameter bag the
  factory returns a value on which \<open>calcularArea\<close>, \<open>calcularPerimetro\<close>, \<open>dibujarASCII\<close>
  and \<open>describir\<close> all return, for the 2D kinds and for the adapted solids alike; for the
  2D kinds the value also has the \<open>id\<close> accessor, which returns the identity drawn at
  construction, and \<open>compararSimilitud\<close>.
\<close>

theorem crear_contrato:
  assumes "bolsa_valida t p"
  shows "\<exists>f. crear i (JStr t) p = Inr f
           \<and> (\<exists>a. calcularArea f = Inr a)
           \<and> (\<exists>q. calcularPerimetro f = Inr q)
           \<and> (\<exists>ls. dibujarASCII f = plantilla ls)
           \<and> (\<exists>d. describir toFixed f = Inr d)
           \<and> (t \<in> set tipos_2D \<longrightarrow>
                id_figura f = JStr i
              \<and> (\<forall>g. compararSimilitud f g None = Inr (nombre f = nombre g)))"
proof -
  from crear_valida [OF assms, of i] obtain f where f: "crear i (JStr t) p = Inr f"
    and inv: "invariante f"
    and d2: "t \<in> set tipos_2D \<longrightarrow> es_FiguraGeometrica f \<and> id_figura f = JStr i"
    by blast
  from invariante_area [OF inv] have a: "\<exists>a. calcularArea f = Inr a" by blast
  from invariante_perimetro [OF inv] have q: "\<exists>q. calcularPerimetro f = Inr q" by blast
  from d2 have c: "t \<in> set tipos_2D \<longrightarrow>
      id_figura f = JStr i \<and> (\<forall>g. compararSimilitud f g None = Inr (nombre f = nombre g))"
    by (simp add: compararSimilitud_FiguraGeometrica)
  from f a q dibujarASCII_plantilla [OF inv] invariante_describir [OF inv, of toFixed] c
  show ?thesis by blast
qed

theorem crear_contrato_witness:
  "\<forall>toFixed. \<exists>f. crear ''a1'' (JStr ''circulo'') [''radio'' \<mapsto> JNum (Fin 5)] = Inr f
      \<and> (\<exists>a. calcularArea f = Inr a)
      \<and> (\<exists>q. calcularPerimetro f = Inr q)
      \<and> (\<exists>ls. dibujarASCII f = plantilla ls)
      \<and> (\<exists>d. describir toFixed f = Inr d)
      \<and> id_figura f = JStr ''a1''
      \<and> (\<forall>g. compararSimilitud f g None = Inr (nombre f = nombre g))"
proof
  fix toFixed
  have "''circulo'' \<in> set tipos_2D" by (simp add: tipos_2D_def)
  with crear_contrato [OF bolsa_circulo_5, of "''a1''" toFixed]
  show "\<exists>f. crear ''a1'' (JStr ''circulo'') [''radio'' \<mapsto> JNum (Fin 5)] = Inr f
      \<and> (\<exists>a. calcularArea f = Inr a)
      \<and> (\<exists>q. calcularPerimetro f = Inr q)
      \<and> (\<exists>ls. dibujarASCII f = plantilla ls)
      \<and> (\<exists>d. describir toFixed f = Inr d)
      \<and> id_figura f = JStr ''a1''
      \<and> (\<forall>g. compararSimilitud f g None = Inr (nombre f = nombre g))"
    by blast
qed

section \<open>Positive areas and the similarity by area\<close>





section \<open>The ASCII patterns\<close>

lemma patrones_Cubo:
  "dibujarASCII_3D (Cubo n s) \<noteq> dibujarASCII (Circulo m i r)"
  "dibujarASCII_3D (Cubo n s) \<noteq> dibujarASCII (Rectangulo m i w h)"
  "dibujarASCII_3D (Cubo n s) \<noteq> dibujarASCII (Pentagono m i l)"
  "dibujarASCII_3D (Cubo n s) \<noteq> dibujarASCII (Hexagono m i l)"
  by (simp_all add: plantilla_def bs_def)

lemma patrones_Esfera:
  "dibujarASCII_3D (Esfera n s) \<noteq> dibujarASCII (Rectangulo m i w h)"
  "dibujarASCII_3D (Esfera n s) \<noteq> dibujarASCII (Pentagono m i l)"
  "dibujarASCII_3D (Esfera n s) \<noteq> dibujarASCII (Hexagono m i l)"
  by (simp_all add: plantilla_def bs_def)

text \<open>
  Claim C8, as stated, fails: the pattern of the sphere is, character for character, the
  pattern of the circle.
\<close>

theorem patrones_ASCII_counterexample:
  "dibujarASCII_3D (Esfera ''Esfera'' (Fin 4)) = dibujarASCII (Circulo nombre_Circulo ''a1'' (Fin 5))"
  by simp

text \<open>
  Claim C8, amended. The pattern of a cube and the pattern of a sphere do not depend on
  the instance, and the adapter returns the pattern of its solid. The cube's pattern
  differs from the pattern of each 2D kind; the sphere's pattern differs from those of the
  rectangle, the pentagon and the hexagon.
\<close>

theorem patrones_ASCII:
  "dibujarASCII_3D (Cubo n s) = dibujarASCII_3D (Cubo n' s')
   \<and> dibujarASCII_3D (Esfera n s) = dibujarASCII_3D (Esfera n' s')
   \<and> dibujarASCII (new_Figura3DAdapter f) = dibujarASCII_3D f
   \<and> dibujarASCII_3D (Cubo n s) \<noteq> dibujarASCII (Circulo m i r)
   \<and> dibujarASCII_3D (Cubo n s) \<noteq> dibujarASCII (Rectangulo m i w h)
   \<and> dibujarASCII_3D (Cubo n s) \<noteq> dibujarASCII (Pentagono m i l)
   \<and> dibujarASCII_3D (Cubo n s) \<noteq> dibujarASCII (Hexagono m i l)
   \<and> dibujarASCII_3D (Esfera n s) \<noteq> dibujarASCII (Rectangulo m i w h)
   \<and> dibujarASCII_3D (Esfera n s) \<noteq> dibujarASCII (Pentagono m i l)
   \<and> dibujarASCII_3D (Esfera n s) \<noteq> dibujarASCII (Hexagono m i l)"
  using patrones_Cubo [of n s m i] patrones_Esfera [of n s m i]
  by (simp add: new_Figura3DAdapter_def del: dibujarASCII.simps(2-5))

theorem patrones_ASCII_witness:
  "dibujarASCII_3D (Cubo ''Cubo'' (Fin 3)) = dibujarASCII_3D (Cubo ''Cubo'' (Fin 7))
   \<and> dibujarASCII_3D (Esfera ''Esfera'' (Fin 4)) = dibujarASCII_3D (Esfera ''Esfera'' (Fin 1))
   \<and> dibujarASCII_3D (Cubo ''Cubo'' (Fin 3))
       \<noteq> dibujarASCII (Circulo nombre_Circulo ''a1'' (Fin 5))
   \<and> dibujarASCII_3D (Esfera ''Esfera'' (Fin 4))
       \<noteq> dibujarASCII (Hexagono nombre_Hexagono ''a2'' (Fin 6))"
  using patrones_ASCII [where n = "''Cubo''" and s = "Fin 3" and n' = "''Cubo''" and s' = "Fin 7"
      and m = nombre_Circulo and i = "''a1''" and r = "Fin 5"]
    patrones_ASCII [where n = "''Esfera''" and s = "Fin 4" and n' = "''Esfera''" and s' = "Fin 1"
      and m = nombre_Hexagono and i = "''a2''" and l = "Fin 6"]
  by blast

section \<open>The collection\<close>

lemma figuras_agregar: "figuras (agregar c f) = figuras c @ [f]"
  by (simp add: agregar_def)

lemma figuras_foldl_agregar: "figuras (foldl agregar c fs) = figuras c @ fs"
  by (induction fs arbitrary: c) (simp_all add: figuras_agregar)

lemma forEach_log_todas:
  "map (describir toFixed) fs = map Inr ds \<Longrightarrow>
   forEach_log toFixed fs consola = (consola @ ds, None)"
proof (induction fs arbitrary: ds consola)
  case Nil
  then show ?case by simp
next
  case (Cons f fs)
  then obtain d ds' where ds: "ds = d # ds'" "describir toFixed f = Inr d"
    "map (describir toFixed) fs = map Inr ds'"
    by (cases ds) auto
  with Cons.IH [of ds' "consola @ [d]"] show ?case by simp
qed

lemma listar_todas:
  "map (describir toFixed) fs = map Inr ds \<Longrightarrow>
   listar toFixed (foldl agregar new_ColeccionFiguras fs) consola
     = (consola @ ''=== FIGURAS ==='' # ds, None)"
  by (simp add: listar_def figuras_foldl_agregar new_ColeccionFiguras_def forEach_log_todas)

text \<open>
  Claim C9. \<open>agregar\<close> appends: after adding the shapes \<open>fs\<close> in turn, the collection holds
  its former members followed by \<open>fs\<close>, in that order. When \<open>describir\<close> returns \<open>ds\<close> on
  the members, \<open>listar\<close> logs the header and then exactly \<open>ds\<close>, one line for each member
  in the order of insertion, and raises nothing; so adding \<open>A\<close>, \<open>B\<close>, \<open>C\<close> and listing
  logs their descriptions in that order.
\<close>

theorem coleccion_orden:
  "figuras (agregar c f) = figuras c @ [f]
   \<and> figuras (foldl agregar c fs) = figuras c @ fs
   \<and> (map (describir toFixed) fs = map Inr ds \<longrightarrow>
        listar toFixed (foldl agregar new_ColeccionFiguras fs) consola
          = (consola @ ''=== FIGURAS ==='' # ds, None))
   \<and> (describir toFixed A = Inr a \<and> describir toFixed B = Inr b \<and> describir toFixed C = Inr c'
        \<longrightarrow> listar toFixed (agregar (agregar (agregar new_ColeccionFiguras A) B) C) consola
          = (consola @ [''=== FIGURAS ==='', a, b, c'], None))"
  using listar_todas [of toFixed "[A, B, C]" "[a, b, c']" consola]
  by (simp add: figuras_agregar figuras_foldl_agregar listar_todas)


theorem coleccion_orden_witness:
  "\<forall>toFixed. \<exists>a b c.
      describir toFixed (Circulo nombre_Circulo ''a1'' (Fin 5)) = Inr a
    \<and> describir toFixed (Rectangulo nombre_Rectangulo ''a2'' (Fin 2) (Fin 3)) = Inr b
    \<and> describir toFixed (Figura3DAdapter (Cubo ''Cubo'' (Fin 3)) ''Cubo'') = Inr c
    \<and> listar toFixed
         (agregar (agregar (agregar new_ColeccionFiguras (Circulo nombre_Circulo ''a1'' (Fin 5)))
            (Rectangulo nombre_Rectangulo ''a2'' (Fin 2) (Fin 3)))
            (Figura3DAdapter (Cubo ''Cubo'' (Fin 3)) ''Cubo'')) []
       = ([''=== FIGURAS ==='', a, b, c], None)"
proof
  fix toFixed
  obtain a where a: "describir toFixed (Circulo nombre_Circulo ''a1'' (Fin 5)) = Inr a"
    using invariante_describir [of "Circulo nombre_Circulo ''a1'' (Fin 5)" toFixed] by auto
  obtain b where b: "describir toFixed (Rectangulo nombre_Rectangulo ''a2'' (Fin 2) (Fin 3)) = Inr b"
    using invariante_describir [of "Rectangulo nombre_Rectangulo ''a2'' (Fin 2) (Fin 3)" toFixed]
    by auto
  obtain c where c: "describir toFixed (Figura3DAdapter (Cubo ''Cubo'' (Fin 3)) ''Cubo'') = Inr c"
    using invariante_describir [of "Figura3DAdapter (Cubo ''Cubo'' (Fin 3)) ''Cubo''" toFixed]
    by auto
  from coleccion_orden [where toFixed = toFixed and consola = "[]"
      and A = "Circulo nombre_Circulo ''a1'' (Fin 5)"
      and B = "Rectangulo nombre_Rectangulo ''a2'' (Fin 2) (Fin 3)"
      and C = "Figura3DAdapter (Cubo ''Cubo'' (Fin 3)) ''Cubo''"
      and a = a and b = b and c' = c] a b c
  show "\<exists>a b c.
      describir toFixed (Circulo nombre_Circulo ''a1'' (Fin 5)) = Inr a
    \<and> describir toFixed (Rectangulo nombre_Rectangulo ''a2'' (Fin 2) (Fin 3)) = Inr b
    \<and> describir toFixed (Figura3DAdapter (Cubo ''Cubo'' (Fin 3)) ''Cubo'') = Inr c
    \<and> listar toFixed
         (agregar (agregar (agregar new_ColeccionFiguras (Circulo nombre_Circulo ''a1'' (Fin 5)))
            (Rectangulo nombre_Rectangulo ''a2'' (Fin 2) (Fin 3)))
            (Figura3DAdapter (Cubo ''Cubo'' (Fin 3)) ''Cubo'')) []
       = ([''=== FIGURAS ==='', a, b, c], None)"
    by (intro exI [of _ a] exI [of _ b] exI [of _ c]) simp
qed


section \<open>Similarity by area\<close>



















end
